theory Spec2Isabelle
  imports Complex_Main "HOL-Library.Char_ord" "HOL-Library.List_Lexorder"
begin

section \<open>The chart generator of nimsync: scripts/generate_charts.py\<close>

text \<open>
  The script reads up to three CSV tables from the most recent
  \<^verbatim>\<open>benchmark_results_*\<close> directory and draws one chart from each. Its
  own code is a thin layer over pandas, numpy and matplotlib, so the model below has
  two strata: the library operations the script calls (\<open>idxmax\<close>, \<open>rolling(...).mean()\<close>,
  \<open>quantile\<close>, \<open>mean\<close>, \<open>min\<close>, \<open>max\<close>, \<open>glob\<close>, \<open>sorted\<close>), written after the
  documented behaviour of those libraries, and the four functions of the script
  (\<open>plot_buffer_sizes\<close>, \<open>plot_sustained_timeseries\<close>, \<open>plot_latency_distribution\<close>,
  \<open>main\<close>), written line by line after the source.

  Conventions of the model.
  \<^item> A CSV file is one of three things: not there; there but unusable, when
    \<open>pd.read_csv\<close> or the first access to a column the script reads raises; or a table
    of rows with the columns the script reads, every cell a finite number (or a string
    for \<open>test_name\<close>). A file with a header and no rows is the empty table.
  \<^item> Numbers are exact reals: the rounding of IEEE doubles is not modelled. What is
    modelled of floating point is the part that decides control flow and shape: the
    special values NaN and the infinities, which numpy produces where Python's own
    floats would raise.
  \<^item> An uncaught Python exception is the \<open>Inl\<close> branch of a sum type.
  \<^item> Drawing calls (\<open>plt.plot\<close>, \<open>plt.annotate\<close>, \<open>plt.savefig\<close>, ...) are recorded as the
    data they are given. One of them can refuse its data: \<open>plt.hist\<close> bins the samples
    with numpy, which raises \<open>ValueError\<close> when the range of the data is too narrow to
    be cut into 50 bins of positive floating-point width. Whether that happens depends
    on the spacing of doubles, which exact reals do not have, so the call is a
    parameter of the model: \<open>plt_hist xs bins\<close> is the exception raised on the data
    \<open>xs\<close>, if any.
  \<^item> The \<open>buffer_size\<close> cells are numpy int64 values; arithmetic on them wraps
    around as numpy's does.
\<close>

subsection \<open>Exceptions and numpy floats\<close>

datatype py_error = ValueError | EmptyDataError | ParserError | KeyError

text \<open>What is found at the path of a CSV file. \<open>Unusable e\<close>: the file exists and
  \<open>pd.read_csv\<close> raises \<open>e\<close> (a zero-byte file raises \<open>EmptyDataError\<close>, a broken
  one \<open>ParserError\<close>), or the table lacks a column the script reads and the lookup
  raises \<open>KeyError\<close>; either happens before anything is written.\<close>

datatype 'row csv = NotFound | Unusable py_error | Table "'row list"

datatype npfloat = Fin real | NaN | PosInf | NegInf

text \<open>numpy's int64 arithmetic keeps the low 64 bits of the exact result, read as a
  signed number (a warning is printed on overflow, nothing is raised).\<close>

definition int64_wrap :: "int \<Rightarrow> int" where
  "int64_wrap x = (x + 2 ^ 63) mod 2 ^ 64 - 2 ^ 63"

text \<open>numpy's float64 division, subtraction and multiplication on the special values
  (no exception is raised: a zero divisor gives an infinity or NaN).\<close>

fun np_div :: "npfloat \<Rightarrow> npfloat \<Rightarrow> npfloat" where
  "np_div (Fin a) (Fin b) =
     (if b = 0 then (if a = 0 then NaN else if 0 < a then PosInf else NegInf)
      else Fin (a / b))"
| "np_div NaN _ = NaN"
| "np_div _ NaN = NaN"
| "np_div (Fin a) PosInf = Fin 0"
| "np_div (Fin a) NegInf = Fin 0"
| "np_div PosInf (Fin b) = (if 0 \<le> b then PosInf else NegInf)"
| "np_div NegInf (Fin b) = (if 0 \<le> b then NegInf else PosInf)"
| "np_div PosInf PosInf = NaN"
| "np_div PosInf NegInf = NaN"
| "np_div NegInf PosInf = NaN"
| "np_div NegInf NegInf = NaN"

fun np_sub :: "npfloat \<Rightarrow> npfloat \<Rightarrow> npfloat" where
  "np_sub (Fin a) (Fin b) = Fin (a - b)"
| "np_sub NaN _ = NaN"
| "np_sub _ NaN = NaN"
| "np_sub PosInf PosInf = NaN"
| "np_sub NegInf NegInf = NaN"
| "np_sub PosInf _ = PosInf"
| "np_sub NegInf _ = NegInf"
| "np_sub (Fin a) PosInf = NegInf"
| "np_sub (Fin a) NegInf = PosInf"

fun np_mul :: "npfloat \<Rightarrow> npfloat \<Rightarrow> npfloat" where
  "np_mul (Fin a) (Fin b) = Fin (a * b)"
| "np_mul NaN _ = NaN"
| "np_mul _ NaN = NaN"
| "np_mul PosInf (Fin b) = (if b = 0 then NaN else if 0 < b then PosInf else NegInf)"
| "np_mul NegInf (Fin b) = (if b = 0 then NaN else if 0 < b then NegInf else PosInf)"
| "np_mul (Fin a) PosInf = (if a = 0 then NaN else if 0 < a then PosInf else NegInf)"
| "np_mul (Fin a) NegInf = (if a = 0 then NaN else if 0 < a then NegInf else PosInf)"
| "np_mul PosInf PosInf = PosInf"
| "np_mul NegInf NegInf = PosInf"
| "np_mul PosInf NegInf = NegInf"
| "np_mul NegInf PosInf = NegInf"

subsection \<open>pandas: reductions of a Series\<close>

text \<open>\<open>Series.mean()\<close>, \<open>Series.min()\<close>, \<open>Series.max()\<close>: NaN on an empty Series.\<close>

fun series_mean :: "real list \<Rightarrow> npfloat" where
  "series_mean [] = NaN"
| "series_mean (x # xs) = Fin (sum_list (x # xs) / real (length (x # xs)))"

fun series_min :: "real list \<Rightarrow> npfloat" where
  "series_min [] = NaN"
| "series_min (x # xs) = Fin (fold min xs x)"

fun series_max :: "real list \<Rightarrow> npfloat" where
  "series_max [] = NaN"
| "series_max (x # xs) = Fin (fold max xs x)"

text \<open>\<open>Series.idxmax()\<close>: the label of the first row holding the maximum; with the
  default index of \<open>read_csv\<close> the label is the row position. An empty Series raises
  \<open>ValueError\<close>. The scan keeps the best position so far and replaces it only by a
  strictly greater value.\<close>

fun argmax_scan :: "real list \<Rightarrow> nat \<Rightarrow> nat \<Rightarrow> real \<Rightarrow> nat" where
  "argmax_scan [] i best_i best_v = best_i"
| "argmax_scan (x # xs) i best_i best_v =
     (if best_v < x then argmax_scan xs (Suc i) i x
      else argmax_scan xs (Suc i) best_i best_v)"

fun idxmax :: "real list \<Rightarrow> py_error + nat" where
  "idxmax [] = Inl ValueError"
| "idxmax (x # xs) = Inr (argmax_scan xs 1 0 x)"

subsection \<open>pandas: rolling mean\<close>

text \<open>\<open>Series.rolling(window=w).mean()\<close> with an integer window: \<open>min_periods\<close> defaults
  to the window size. The fixed-window kernel walks the values once, keeping the number
  of observations in the window and their running sum: the value that leaves the window
  is removed, the new one is added, and the result at each position is the sum over the
  count when at least \<open>min_periods\<close> observations are present, NaN otherwise. (The
  kernel's compensated summation and its clamp of the sign of the mean only repair
  rounding; over exact reals they change nothing and are left out.)\<close>

definition roll_step ::
  "real list \<Rightarrow> nat \<Rightarrow> nat \<Rightarrow> nat \<Rightarrow> nat \<times> real \<times> npfloat list \<Rightarrow> nat \<times> real \<times> npfloat list" where
  "roll_step values w minp i st =
     (case st of (nobs, sum_x, out) \<Rightarrow>
        let (nobs1, sum1) = (if w \<le> i then (nobs - 1, sum_x - values ! (i - w))
                             else (nobs, sum_x));
            nobs2 = nobs1 + 1;
            sum2 = sum1 + values ! i
        in (nobs2, sum2,
            out @ [if minp \<le> nobs2 \<and> 0 < nobs2 then Fin (sum2 / real nobs2) else NaN]))"

definition roll_mean :: "real list \<Rightarrow> nat \<Rightarrow> nat \<Rightarrow> npfloat list" where
  "roll_mean values w minp =
     snd (snd (fold (roll_step values w minp) [0..<length values] (0, 0, [])))"

definition rolling_mean :: "nat \<Rightarrow> real list \<Rightarrow> npfloat list" where
  "rolling_mean window values = roll_mean values window window"

subsection \<open>pandas: quantile\<close>

text \<open>\<open>Series.quantile(q)\<close> with the default \<open>interpolation='linear'\<close>: \<open>q\<close> outside
  \<open>[0, 1]\<close> raises \<open>ValueError\<close>, an empty Series gives NaN, and otherwise the sorted
  values are read at the virtual index \<open>(n - 1) * q\<close>: the value below, plus the
  fractional part of the index times the step to the next value (the next position is
  clipped to the last one). numpy evaluates the same affine expression from the upper
  value when the fraction is at least one half; over exact reals it is the same number.\<close>

definition quantile :: "real list \<Rightarrow> real \<Rightarrow> py_error + npfloat" where
  "quantile xs q =
     (if q < 0 \<or> 1 < q then Inl ValueError
      else if xs = [] then Inr NaN
      else let s = sort xs;
               n = length xs;
               virtual_index = real (n - 1) * q;
               previous = nat \<lfloor>virtual_index\<rfloor>;
               next = min (previous + 1) (n - 1);
               gamma = virtual_index - real previous
           in Inr (Fin (s ! previous + (s ! next - s ! previous) * gamma)))"

subsection \<open>The tables and the charts\<close>

record sweep_row =
  buffer_size :: int
  throughput_ops_per_sec :: real

record sustained_row =
  test_name :: string
  elapsed_time_sec :: real
  sustained_throughput_ops_per_sec :: real

text \<open>What each plotting function hands to matplotlib before \<open>savefig\<close>.\<close>

record sweep_chart =
  sweep_line :: "(int \<times> real) list"
  annotate_xy :: "int \<times> real"
  annotate_xytext :: "int \<times> real"

record sustained_chart =
  raw_line :: "(real \<times> real) list"
  rolling_line :: "(real \<times> npfloat) list"
  rolling_label_samples :: nat
  stats_avg :: npfloat
  stats_variance :: npfloat

record latency_chart =
  hist_values :: "real list"
  hist_bins :: nat
  vline_p50 :: npfloat
  vline_p99 :: npfloat
  vline_p999 :: npfloat

datatype chart = Sweep sweep_chart | Sustained sustained_chart | Latency latency_chart

text \<open>How one plotting function returns: a PNG was written, the CSV file was not
  found (warning printed, early return), or the sustained table had no row of the
  10-second test (warning printed, early return).\<close>

datatype outcome = Generated chart | SkippedNotFound | SkippedNoTenSecondData

subsection \<open>plot\_buffer\_sizes\<close>

definition plot_buffer_sizes :: "sweep_row csv \<Rightarrow> py_error + outcome" where
  "plot_buffer_sizes csv_file =
     (case csv_file of
        NotFound \<Rightarrow> Inr SkippedNotFound
      | Unusable e \<Rightarrow> Inl e
      | Table df \<Rightarrow>
          let line = zip (map buffer_size df)
                         (map (\<lambda>r. throughput_ops_per_sec r / 1000000) df)
          in (case idxmax (map throughput_ops_per_sec df) of
                Inl e \<Rightarrow> Inl e
              | Inr optimal_idx \<Rightarrow>
                  let optimal_size = buffer_size (df ! optimal_idx);
                      optimal_throughput = throughput_ops_per_sec (df ! optimal_idx) / 1000000
                  in Inr (Generated (Sweep
                       \<lparr>sweep_line = line,
                        annotate_xy = (optimal_size, optimal_throughput),
                        annotate_xytext = (int64_wrap (optimal_size * 2),
                                           optimal_throughput * 0.9)\<rparr>))))"

subsection \<open>plot\_sustained\_timeseries\<close>

definition target_test_name :: string where
  "target_test_name = ''10-second sustained load''"

definition window_size_of :: "nat \<Rightarrow> nat" where
  "window_size_of n = max 1 (n div 50)"

definition plot_sustained_timeseries :: "sustained_row csv \<Rightarrow> py_error + outcome" where
  "plot_sustained_timeseries csv_file =
     (case csv_file of
        NotFound \<Rightarrow> Inr SkippedNotFound
      | Unusable e \<Rightarrow> Inl e
      | Table df \<Rightarrow>
          let df_10s = filter (\<lambda>r. test_name r = target_test_name) df
          in if length df_10s = 0 then Inr SkippedNoTenSecondData
             else
               let times = map elapsed_time_sec df_10s;
                   throughput = map sustained_throughput_ops_per_sec df_10s;
                   window_size = window_size_of (length df_10s);
                   rolling_avg = rolling_mean window_size throughput;
                   avg_throughput = np_div (series_mean throughput) (Fin 1000000);
                   min_throughput = np_div (series_min throughput) (Fin 1000000);
                   max_throughput = np_div (series_max throughput) (Fin 1000000);
                   variance = np_mul (np_div (np_sub max_throughput min_throughput)
                                             avg_throughput) (Fin 100)
               in Inr (Generated (Sustained
                    \<lparr>raw_line = zip times (map (\<lambda>v. v / 1000000) throughput),
                     rolling_line = zip times (map (\<lambda>v. np_div v (Fin 1000000)) rolling_avg),
                     rolling_label_samples = window_size,
                     stats_avg = avg_throughput,
                     stats_variance = variance\<rparr>)))"

subsection \<open>plot\_latency\_distribution\<close>

text \<open>The histogram call of the drawing library, as far as the control flow sees it:
  the exception it raises on the given samples and number of bins, or none.\<close>

type_synonym hist_call = "real list \<Rightarrow> nat \<Rightarrow> py_error option"

text \<open>A drawing library whose histogram call accepts whatever it is given; the concrete
  runs below are stated with it.\<close>

definition hist_accepts :: hist_call where
  "hist_accepts xs bins = None"

definition plot_latency_distribution :: "hist_call \<Rightarrow> real csv \<Rightarrow> py_error + outcome" where
  "plot_latency_distribution plt_hist csv_file =
     (case csv_file of
        NotFound \<Rightarrow> Inr SkippedNotFound
      | Unusable e \<Rightarrow> Inl e
      | Table latencies_ns \<Rightarrow>
          (case plt_hist latencies_ns 50 of
             Some e \<Rightarrow> Inl e
           | None \<Rightarrow>
          (case quantile latencies_ns 0.50 of
             Inl e \<Rightarrow> Inl e
           | Inr p50 \<Rightarrow>
          (case quantile latencies_ns 0.99 of
             Inl e \<Rightarrow> Inl e
           | Inr p99 \<Rightarrow>
          (case quantile latencies_ns 0.999 of
             Inl e \<Rightarrow> Inl e
           | Inr p999 \<Rightarrow>
               Inr (Generated (Latency
                 \<lparr>hist_values = latencies_ns, hist_bins = 50,
                  vline_p50 = p50, vline_p99 = p99, vline_p999 = p999\<rparr>)))))))"

subsection \<open>main\<close>

text \<open>The files of one results directory that the script looks for.\<close>

record results_dir =
  buffer_sizes_csv :: "sweep_row csv"
  sustained_timeseries_csv :: "sustained_row csv"
  latency_samples_csv :: "real csv"

text \<open>The working directory: its entries by name, each with what lies under it. An
  entry that is a plain file, or a name that is not listed, has none of the three files
  under it (\<open>os.path.exists\<close> is false for each).\<close>

type_synonym listing = "(string \<times> results_dir) list"

definition dir_contents :: "listing \<Rightarrow> string \<Rightarrow> results_dir" where
  "dir_contents entries d =
     (case map_of entries d of
        Some c \<Rightarrow> c
      | None \<Rightarrow> \<lparr>buffer_sizes_csv = NotFound, sustained_timeseries_csv = NotFound,
                 latency_samples_csv = NotFound\<rparr>)"

text \<open>\<open>glob.glob("benchmark_results_*")\<close> over the entries of the working directory:
  the entries whose name starts with the fixed prefix, in the order of the listing.\<close>

definition results_prefix :: string where
  "results_prefix = ''benchmark_results_''"

definition glob_results :: "string list \<Rightarrow> string list" where
  "glob_results entries =
     filter (\<lambda>e. take (length results_prefix) e = results_prefix) entries"

text \<open>\<open>sorted(results_dirs)[-1]\<close>: Python compares strings lexicographically by code
  point; indexing an empty list raises, which \<open>main\<close> excludes by its guard, so the
  selection is only defined through \<open>option\<close>.\<close>

definition latest_of :: "string list \<Rightarrow> string option" where
  "latest_of results_dirs =
     (case sort results_dirs of [] \<Rightarrow> None | s # ss \<Rightarrow> Some (last (s # ss)))"

text \<open>How the process ends: \<open>sys.exit(1)\<close> when no directory matches; the normal end
  after the three plotting calls, with their outcomes in call order; or an exception
  that left a plotting call and, nothing catching it, ended the process, with the
  outcomes of the calls that had returned before.\<close>

datatype run =
    NoResultsExit
  | Complete string "outcome list"
  | Uncaught string "outcome list" py_error

fun exit_code :: "run \<Rightarrow> nat" where
  "exit_code NoResultsExit = 1"
| "exit_code (Complete _ _) = 0"
| "exit_code (Uncaught _ _ _) = 1"

text \<open>The number of plotting calls that were entered, and the directory they read.\<close>

fun attempted :: "run \<Rightarrow> nat" where
  "attempted NoResultsExit = 0"
| "attempted (Complete _ outs) = length outs"
| "attempted (Uncaught _ outs _) = Suc (length outs)"

fun used_dir :: "run \<Rightarrow> string option" where
  "used_dir NoResultsExit = None"
| "used_dir (Complete d _) = Some d"
| "used_dir (Uncaught d _ _) = Some d"

definition main :: "hist_call \<Rightarrow> listing \<Rightarrow> run" where
  "main plt_hist entries =
     (case latest_of (glob_results (map fst entries)) of
        None \<Rightarrow> NoResultsExit
      | Some latest_dir \<Rightarrow>
          let files = dir_contents entries latest_dir
          in (case plot_buffer_sizes (buffer_sizes_csv files) of
                Inl e \<Rightarrow> Uncaught latest_dir [] e
              | Inr o1 \<Rightarrow>
             (case plot_sustained_timeseries (sustained_timeseries_csv files) of
                Inl e \<Rightarrow> Uncaught latest_dir [o1] e
              | Inr o2 \<Rightarrow>
             (case plot_latency_distribution plt_hist (latency_samples_csv files) of
                Inl e \<Rightarrow> Uncaught latest_dir [o1, o2] e
              | Inr o3 \<Rightarrow> Complete latest_dir [o1, o2, o3]))))"

subsection \<open>Definitions used to state the properties\<close>

text \<open>The value the rolling mean holds at position \<open>i\<close>, in closed form: the mean of
  the values at the positions \<open>i + 1 - w, ..., i\<close> (truncated at 0) when at least
  \<open>minp\<close> of them exist, NaN otherwise.\<close>

definition roll_out :: "real list \<Rightarrow> nat \<Rightarrow> nat \<Rightarrow> nat \<Rightarrow> npfloat" where
  "roll_out values w minp i =
     (if minp \<le> min (Suc i) w
      then Fin ((\<Sum>j = Suc i - w..<Suc i. values ! j) / real (min (Suc i) w))
      else NaN)"

text \<open>Position \<open>r\<close> holds a maximum of the list, and no earlier position does.\<close>

definition first_max :: "real list \<Rightarrow> nat \<Rightarrow> bool" where
  "first_max zs r = (r < length zs \<and> (\<forall>j<length zs. zs ! j \<le> zs ! r) \<and> (\<forall>j<r. zs ! j < zs ! r))"

text \<open>The quantile as the specification words it: the value at fractional rank
  \<open>h = (n - 1) p\<close> of the sorted sequence, by linear interpolation between the two
  order statistics that bracket \<open>h\<close>, those at ranks \<open>\<lfloor>h\<rfloor>\<close> and \<open>\<lceil>h\<rceil>\<close>.\<close>

definition interpolated_order_statistic :: "real list \<Rightarrow> real \<Rightarrow> real" where
  "interpolated_order_statistic xs p =
     (let s = sort xs;
          h = real (length xs - 1) * p;
          lo = nat \<lfloor>h\<rfloor>;
          hi = nat \<lceil>h\<rceil>
      in (1 - (h - real lo)) * s ! lo + (h - real lo) * s ! hi)"

text \<open>The conventional median: the midpoint of the sorted array, the mean of the two
  middle values when the length is even.\<close>

definition median :: "real list \<Rightarrow> real" where
  "median xs =
     (let s = sort xs; n = length xs
      in if odd n then s ! (n div 2) else (s ! (n div 2 - 1) + s ! (n div 2)) / 2)"

section \<open>Properties\<close>

subsection \<open>The rolling mean in closed form\<close>

lemma window_sum_slide:
  fixes vals :: "real list"
  assumes "1 \<le> w" "w \<le> k"
  shows "(\<Sum>j = k - w..<k. vals ! j) - vals ! (k - w) + vals ! k
        = (\<Sum>j = Suc k - w..<Suc k. vals ! j)"
proof -
  have le: "Suc (k - w) \<le> k" using assms by simp
  have lt: "k - w < k" using assms by simp
  have a: "(\<Sum>j = k - w..<k. vals ! j) = vals ! (k - w) + (\<Sum>j = Suc (k - w)..<k. vals ! j)"
    using lt by (simp add: sum.atLeast_Suc_lessThan)
  have "(\<Sum>j = Suc k - w..<Suc k. vals ! j) = (\<Sum>j = Suc (k - w)..<Suc k. vals ! j)"
    using assms(2) by (simp add: Suc_diff_le)
  also have "\<dots> = (\<Sum>j = Suc (k - w)..<k. vals ! j) + vals ! k"
    using le by simp
  finally show ?thesis using a by simp
qed

lemma roll_step_invariant:
  assumes "1 \<le> w"
  shows "roll_step values w minp k
           (min k w, (\<Sum>j = k - w..<k. values ! j), out) =
         (min (Suc k) w, (\<Sum>j = Suc k - w..<Suc k. values ! j),
          out @ [roll_out values w minp k])"
proof (cases "w \<le> k")
  case True
  have n: "min k w - 1 + 1 = min (Suc k) w" using True assms by simp
  show ?thesis
    unfolding roll_step_def roll_out_def
    using True assms n window_sum_slide [OF assms True, of "values"]
    by (simp add: Let_def)
next
  case False
  then show ?thesis
    unfolding roll_step_def roll_out_def by (simp add: Let_def min_def)
qed

lemma roll_fold_invariant:
  assumes "1 \<le> w"
  shows "fold (roll_step values w minp) [0..<k] (0, 0, []) =
     (min k w, (\<Sum>j = k - w..<k. values ! j), map (roll_out values w minp) [0..<k])"
proof (induction k)
  case 0
  then show ?case by simp
next
  case (Suc k)
  have "fold (roll_step values w minp) [0..<Suc k] (0, 0, []) =
        roll_step values w minp k (fold (roll_step values w minp) [0..<k] (0, 0, []))"
    by simp
  also have "\<dots> = roll_step values w minp k
       (min k w, (\<Sum>j = k - w..<k. values ! j), map (roll_out values w minp) [0..<k])"
    by (simp only: Suc.IH)
  also have "\<dots> = (min (Suc k) w, (\<Sum>j = Suc k - w..<Suc k. values ! j),
          map (roll_out values w minp) [0..<k] @ [roll_out values w minp k])"
    by (rule roll_step_invariant [OF assms])
  finally show ?case by simp
qed

lemma roll_mean_eq:
  assumes "1 \<le> w"
  shows "roll_mean values w minp = map (roll_out values w minp) [0..<length values]"
  by (simp add: roll_mean_def roll_fold_invariant [OF assms])

lemma rolling_mean_nth:
  assumes "1 \<le> w" "i < length xs"
  shows "rolling_mean w xs ! i =
     (if Suc i < w then NaN else Fin ((\<Sum>j = Suc i - w..<Suc i. xs ! j) / real w))"
  using assms by (auto simp add: rolling_mean_def roll_mean_eq roll_out_def min_def)

subsection \<open>The derived window size and the sustained chart\<close>

lemma window_size_small: "n < 100 \<Longrightarrow> window_size_of n = 1"
  unfolding window_size_of_def by arith

lemma window_size_large: "100 \<le> n \<Longrightarrow> 2 \<le> window_size_of n"
  unfolding window_size_of_def by arith

lemma window_size_pos: "1 \<le> window_size_of n"
  by (simp add: window_size_of_def)

lemma rolling_mean_one: "rolling_mean 1 xs = map Fin xs"
proof -
  have "rolling_mean 1 xs = map (\<lambda>i. Fin (xs ! i)) [0..<length xs]"
    by (simp add: rolling_mean_def roll_mean_eq roll_out_def)
  also have "\<dots> = map Fin (map (\<lambda>i. xs ! i) [0..<length xs])"
    by simp
  also have "\<dots> = map Fin xs"
    by (simp only: map_nth)
  finally show ?thesis .
qed

lemma sustained_generated:
  assumes "filter (\<lambda>r. test_name r = target_test_name) df = df_10s" "df_10s \<noteq> []"
  shows "plot_sustained_timeseries (Table df) = Inr (Generated (Sustained
      \<lparr>raw_line = zip (map elapsed_time_sec df_10s)
                      (map (\<lambda>v. v / 1000000) (map sustained_throughput_ops_per_sec df_10s)),
       rolling_line = zip (map elapsed_time_sec df_10s)
          (map (\<lambda>v. np_div v (Fin 1000000))
             (rolling_mean (window_size_of (length df_10s))
                (map sustained_throughput_ops_per_sec df_10s))),
       rolling_label_samples = window_size_of (length df_10s),
       stats_avg = np_div (series_mean (map sustained_throughput_ops_per_sec df_10s)) (Fin 1000000),
       stats_variance = np_mul (np_div (np_sub
            (np_div (series_max (map sustained_throughput_ops_per_sec df_10s)) (Fin 1000000))
            (np_div (series_min (map sustained_throughput_ops_per_sec df_10s)) (Fin 1000000)))
            (np_div (series_mean (map sustained_throughput_ops_per_sec df_10s)) (Fin 1000000)))
            (Fin 100)\<rparr>))"
  using assms by (simp add: plot_sustained_timeseries_def Let_def)

subsection \<open>C2: what the rolling mean holds at each position\<close>

text \<open>
  Claim C2, as the specification words it: element \<open>i\<close> of the rolling average is the
  mean of the trailing window ending at \<open>i\<close>, taken over however many elements are
  available when fewer than the window size exist, so that the first output element
  always equals the first input element.

  The code calls \<open>rolling(window=window_size).mean()\<close> and leaves \<open>min_periods\<close> at its
  default, the window size: a position with fewer than \<open>window_size\<close> elements behind it
  holds NaN. With 100 rows the derived window is 2 and the first output element is NaN,
  not the first input element.
\<close>

theorem rolling_first_element_counterexample:
  "window_size_of (length (replicate 100 (7::real))) = 2
   \<and> rolling_mean (window_size_of (length (replicate 100 (7::real)))) (replicate 100 7) ! 0 = NaN
   \<and> rolling_mean (window_size_of (length (replicate 100 (7::real)))) (replicate 100 7) ! 0
        \<noteq> Fin (replicate 100 (7::real) ! 0)"
proof -
  have w: "window_size_of (length (replicate 100 (7::real))) = 2"
    by (simp add: window_size_of_def)
  have "rolling_mean 2 (replicate 100 (7::real)) ! 0 = NaN"
    using rolling_mean_nth [of 2 0 "replicate 100 (7::real)"] by simp
  then show ?thesis
    unfolding w by simp
qed

text \<open>
  Claim C2, amended. For every input sequence and its derived window size \<open>w\<close>,
  element \<open>i\<close> of the rolling average is the arithmetic mean of the \<open>w\<close> elements ending
  at \<open>i\<close> when \<open>i + 1 \<ge> w\<close>, and NaN when fewer than \<open>w\<close> elements are available; the
  first output element equals the first input element exactly when the sequence has
  fewer than 100 elements (window size 1).
\<close>

theorem rolling_average_elements:
  assumes "i < length xs"
  shows "rolling_mean (window_size_of (length xs)) xs ! i =
           (if Suc i < window_size_of (length xs) then NaN
            else Fin ((\<Sum>j = Suc i - window_size_of (length xs)..<Suc i. xs ! j)
                      / real (window_size_of (length xs))))
         \<and> ((rolling_mean (window_size_of (length xs)) xs ! 0 = Fin (xs ! 0))
              = (length xs < 100))"
proof -
  let ?w = "window_size_of (length xs)"
  have pos: "0 < length xs" using assms by auto
  have "(rolling_mean ?w xs ! 0 = Fin (xs ! 0)) = (length xs < 100)"
  proof (cases "length xs < 100")
    case True
    then have "rolling_mean ?w xs = map Fin xs"
      by (simp only: window_size_small rolling_mean_one)
    then show ?thesis using pos True by simp
  next
    case False
    then have "2 \<le> ?w" by (simp add: window_size_large)
    then have "rolling_mean ?w xs ! 0 = NaN"
      using rolling_mean_nth [of ?w 0 xs] pos by simp
    then show ?thesis using False by simp
  qed
  then show ?thesis
    using rolling_mean_nth [of ?w i xs] assms window_size_pos [of "length xs"] by simp
qed

theorem rolling_average_elements_witness:
  "(1::nat) < length (replicate 100 (7::real))
   \<and> rolling_mean (window_size_of (length (replicate 100 (7::real)))) (replicate 100 7) ! 1 = Fin 7"
  using rolling_average_elements [of 1 "replicate 100 (7::real)"]
  by (simp add: window_size_of_def)

subsection \<open>C10: on fewer than 100 rows the smoothing is the identity\<close>

text \<open>
  Claim C10. For every filtered sustained-load series with fewer than 100 rows (and at
  least one, or no chart is drawn), the derived window size is 1, the raw line of the
  chart is the filtered rows' (time, throughput / 1e6), and the rolling-average line is,
  point by point, the same: same times, same values.
\<close>

theorem small_run_smoothing_is_identity:
  assumes "filter (\<lambda>r. test_name r = target_test_name) df = df_10s"
      and "df_10s \<noteq> []" and "length df_10s < 100"
  shows "window_size_of (length df_10s) = 1 \<and>
         (\<exists>c. plot_sustained_timeseries (Table df) = Inr (Generated (Sustained c))
            \<and> rolling_label_samples c = 1
            \<and> raw_line c =
                map (\<lambda>r. (elapsed_time_sec r, sustained_throughput_ops_per_sec r / 1000000)) df_10s
            \<and> rolling_line c =
                map (\<lambda>r. (elapsed_time_sec r, Fin (sustained_throughput_ops_per_sec r / 1000000)))
                  df_10s
            \<and> rolling_line c = map (\<lambda>(t, y). (t, Fin y)) (raw_line c))"
proof -
  have w: "window_size_of (length df_10s) = 1"
    using assms(3) by (rule window_size_small)
  show ?thesis
    unfolding sustained_generated [OF assms(1,2)] w rolling_mean_one
    by (simp add: zip_map_map zip_same_conv_map case_prod_unfold comp_def)
qed

theorem small_run_smoothing_is_identity_witness:
  "filter (\<lambda>r. test_name r = target_test_name)
      [\<lparr>test_name = ''10-second sustained load'', elapsed_time_sec = 0,
         sustained_throughput_ops_per_sec = 3000000\<rparr>,
       \<lparr>test_name = ''warmup'', elapsed_time_sec = 1,
         sustained_throughput_ops_per_sec = 9000000\<rparr>,
       \<lparr>test_name = ''10-second sustained load'', elapsed_time_sec = 2,
         sustained_throughput_ops_per_sec = 5000000\<rparr>]
     = [\<lparr>test_name = ''10-second sustained load'', elapsed_time_sec = 0,
         sustained_throughput_ops_per_sec = 3000000\<rparr>,
        \<lparr>test_name = ''10-second sustained load'', elapsed_time_sec = 2,
         sustained_throughput_ops_per_sec = 5000000\<rparr>]
   \<and> (\<exists>c. plot_sustained_timeseries (Table
      [\<lparr>test_name = ''10-second sustained load'', elapsed_time_sec = 0,
         sustained_throughput_ops_per_sec = 3000000\<rparr>,
       \<lparr>test_name = ''warmup'', elapsed_time_sec = 1,
         sustained_throughput_ops_per_sec = 9000000\<rparr>,
       \<lparr>test_name = ''10-second sustained load'', elapsed_time_sec = 2,
         sustained_throughput_ops_per_sec = 5000000\<rparr>]) = Inr (Generated (Sustained c))
        \<and> rolling_label_samples c = 1
        \<and> raw_line c = [(0, 3), (2, 5)]
        \<and> rolling_line c = [(0, Fin 3), (2, Fin 5)])"
proof -
  let ?df = "[\<lparr>test_name = ''10-second sustained load'', elapsed_time_sec = 0,
         sustained_throughput_ops_per_sec = 3000000\<rparr>,
       \<lparr>test_name = ''warmup'', elapsed_time_sec = 1,
         sustained_throughput_ops_per_sec = 9000000\<rparr>,
       \<lparr>test_name = ''10-second sustained load'', elapsed_time_sec = 2,
         sustained_throughput_ops_per_sec = 5000000\<rparr>]"
  let ?f = "[\<lparr>test_name = ''10-second sustained load'', elapsed_time_sec = 0,
         sustained_throughput_ops_per_sec = 3000000\<rparr>,
        \<lparr>test_name = ''10-second sustained load'', elapsed_time_sec = 2,
         sustained_throughput_ops_per_sec = 5000000\<rparr>]"
  have h1: "filter (\<lambda>r. test_name r = target_test_name) ?df = ?f"
    by (simp add: target_test_name_def)
  have h2: "?f \<noteq> []" by simp
  have h3: "length ?f < 100" by simp
  obtain c where c: "plot_sustained_timeseries (Table ?df) = Inr (Generated (Sustained c))"
      "rolling_label_samples c = 1"
      "raw_line c =
         map (\<lambda>r. (elapsed_time_sec r, sustained_throughput_ops_per_sec r / 1000000)) ?f"
      "rolling_line c =
         map (\<lambda>r. (elapsed_time_sec r, Fin (sustained_throughput_ops_per_sec r / 1000000))) ?f"
    using small_run_smoothing_is_identity [OF h1 h2 h3] by blast
  have "raw_line c = [(0, 3), (2, 5)]" using c(3) by simp
  moreover have "rolling_line c = [(0, Fin 3), (2, Fin 5)]" using c(4) by simp
  ultimately show ?thesis using h1 c(1,2) by blast
qed

subsection \<open>The first maximum and the sweep chart\<close>

lemma first_max_snoc_greater:
  assumes "first_max ys b" "ys ! b < x"
  shows "first_max (ys @ [x]) (length ys)"
  using assms unfolding first_max_def
  by (auto simp: nth_append less_Suc_eq)

lemma first_max_snoc_keep:
  assumes "first_max ys b" "\<not> ys ! b < x"
  shows "first_max (ys @ [x]) b"
  using assms unfolding first_max_def
  by (auto simp: nth_append less_Suc_eq)

lemma argmax_scan_first_max:
  "first_max ys b \<Longrightarrow> first_max (ys @ xs) (argmax_scan xs (length ys) b (ys ! b))"
proof (induction xs arbitrary: ys b)
  case Nil
  then show ?case by simp
next
  case (Cons x xs)
  show ?case
  proof (cases "ys ! b < x")
    case True
    have fm: "first_max (ys @ [x]) (length ys)"
      using Cons.prems True by (rule first_max_snoc_greater)
    have "first_max ((ys @ [x]) @ xs) (argmax_scan xs (length (ys @ [x])) (length ys) ((ys @ [x]) ! length ys))"
      using Cons.IH [OF fm] .
    then show ?thesis using True by simp
  next
    case False
    have fm: "first_max (ys @ [x]) b"
      using Cons.prems False by (rule first_max_snoc_keep)
    have b: "b < length ys" using Cons.prems by (simp add: first_max_def)
    have "first_max ((ys @ [x]) @ xs) (argmax_scan xs (length (ys @ [x])) b ((ys @ [x]) ! b))"
      using Cons.IH [OF fm] .
    then show ?thesis using False b by (simp add: nth_append)
  qed
qed

lemma idxmax_first_max:
  assumes "xs \<noteq> []"
  shows "\<exists>i. idxmax xs = Inr i \<and> first_max xs i"
proof -
  obtain x rest where xs: "xs = x # rest" using assms by (cases xs) auto
  have "first_max [x] 0" by (simp add: first_max_def)
  then have "first_max ([x] @ rest) (argmax_scan rest (length [x]) 0 ([x] ! 0))"
    by (rule argmax_scan_first_max)
  then show ?thesis by (simp add: xs)
qed

lemma sweep_generated:
  assumes "idxmax (map throughput_ops_per_sec df) = Inr i"
  shows "plot_buffer_sizes (Table df) = Inr (Generated (Sweep
     \<lparr>sweep_line = zip (map buffer_size df) (map (\<lambda>r. throughput_ops_per_sec r / 1000000) df),
      annotate_xy = (buffer_size (df ! i), throughput_ops_per_sec (df ! i) / 1000000),
      annotate_xytext = (int64_wrap (buffer_size (df ! i) * 2),
                         throughput_ops_per_sec (df ! i) / 1000000 * 0.9)\<rparr>))"
  using assms by (simp add: plot_buffer_sizes_def Let_def)

subsection \<open>C6: the optimal point is the first row of maximal throughput\<close>

text \<open>
  Claim C6. For every sweep table with at least one row, the optimal point is taken at
  the row where \<open>throughput_ops_per_sec\<close> is maximal, the first such row in table order
  when several rows attain the maximum; the annotation carries that row's \<open>buffer_size\<close>
  as key and that row's throughput as value (drawn in M ops/sec, the unit of the y-axis).
\<close>

theorem optimal_point_first_maximum:
  assumes "df \<noteq> []"
  shows "\<exists>i c. idxmax (map throughput_ops_per_sec df) = Inr i
           \<and> i < length df
           \<and> (\<forall>j<length df. throughput_ops_per_sec (df ! j) \<le> throughput_ops_per_sec (df ! i))
           \<and> (\<forall>j<i. throughput_ops_per_sec (df ! j) < throughput_ops_per_sec (df ! i))
           \<and> plot_buffer_sizes (Table df) = Inr (Generated (Sweep c))
           \<and> annotate_xy c = (buffer_size (df ! i), throughput_ops_per_sec (df ! i) / 1000000)"
proof -
  have "map throughput_ops_per_sec df \<noteq> []" using assms by simp
  then obtain i where i: "idxmax (map throughput_ops_per_sec df) = Inr i"
      and fm: "first_max (map throughput_ops_per_sec df) i"
    using idxmax_first_max by blast
  have len: "i < length df" using fm by (simp add: first_max_def)
  have mx: "\<forall>j<length df. throughput_ops_per_sec (df ! j) \<le> throughput_ops_per_sec (df ! i)"
    using fm len by (simp add: first_max_def)
  have fst: "\<forall>j<i. throughput_ops_per_sec (df ! j) < throughput_ops_per_sec (df ! i)"
    using fm len by (simp add: first_max_def)
  show ?thesis
    using i len mx fst sweep_generated [OF i] by simp
qed

theorem optimal_point_first_maximum_witness:
  "[\<lparr>buffer_size = 1, throughput_ops_per_sec = 100\<rparr>,
    \<lparr>buffer_size = 2, throughput_ops_per_sec = 900\<rparr>,
    \<lparr>buffer_size = 4, throughput_ops_per_sec = 900\<rparr>,
    \<lparr>buffer_size = 8, throughput_ops_per_sec = 200\<rparr>] \<noteq> []
   \<and> idxmax (map throughput_ops_per_sec
        [\<lparr>buffer_size = 1, throughput_ops_per_sec = 100\<rparr>,
         \<lparr>buffer_size = 2, throughput_ops_per_sec = 900\<rparr>,
         \<lparr>buffer_size = 4, throughput_ops_per_sec = 900\<rparr>,
         \<lparr>buffer_size = 8, throughput_ops_per_sec = 200\<rparr>]) = Inr 1
   \<and> (\<exists>c. plot_buffer_sizes (Table
        [\<lparr>buffer_size = 1, throughput_ops_per_sec = 100\<rparr>,
         \<lparr>buffer_size = 2, throughput_ops_per_sec = 900\<rparr>,
         \<lparr>buffer_size = 4, throughput_ops_per_sec = 900\<rparr>,
         \<lparr>buffer_size = 8, throughput_ops_per_sec = 200\<rparr>]) = Inr (Generated (Sweep c))
        \<and> annotate_xy c = (2, 900 / 1000000))"
proof -
  let ?df = "[\<lparr>buffer_size = 1, throughput_ops_per_sec = 100\<rparr>,
    \<lparr>buffer_size = 2, throughput_ops_per_sec = 900\<rparr>,
    \<lparr>buffer_size = 4, throughput_ops_per_sec = 900\<rparr>,
    \<lparr>buffer_size = 8, throughput_ops_per_sec = 200\<rparr>]"
  have ne: "?df \<noteq> []" by simp
  have ix: "idxmax (map throughput_ops_per_sec ?df) = Inr 1" by simp
  obtain i c where "idxmax (map throughput_ops_per_sec ?df) = Inr i"
      and c: "plot_buffer_sizes (Table ?df) = Inr (Generated (Sweep c))"
             "annotate_xy c = (buffer_size (?df ! i), throughput_ops_per_sec (?df ! i) / 1000000)"
    using optimal_point_first_maximum [OF ne] by blast
  then have "i = 1" using ix by simp
  then have "annotate_xy c = (2, 900 / 1000000)" using c(2) by simp
  then show ?thesis using ne ix c(1) by blast
qed

subsection \<open>C3: the primary series of the sweep chart\<close>

text \<open>
  Claim C3, as the specification words it: the primary series of the sweep chart is the
  list of pairs (buffer\_size, throughput / 1e6) ordered by buffer\_size ascending.

  The code hands the two columns to \<open>plt.plot\<close> as they were read and sorts nothing: a
  table whose rows are not in ascending order of \<open>buffer_size\<close> gives a series that is
  not in ascending order either.
\<close>

theorem sweep_series_unsorted_counterexample:
  "plot_buffer_sizes (Table [\<lparr>buffer_size = 2, throughput_ops_per_sec = 1000000\<rparr>,
                            \<lparr>buffer_size = 1, throughput_ops_per_sec = 2000000\<rparr>])
     = Inr (Generated (Sweep \<lparr>sweep_line = [(2, 1), (1, 2)], annotate_xy = (1, 2),
                              annotate_xytext = (2, 1.8)\<rparr>))
   \<and> \<not> sorted (map fst [(2 :: int, 1 :: real), (1, 2)])"
  by (simp add: plot_buffer_sizes_def int64_wrap_def)

text \<open>
  Claim C3, amended. For every loaded sweep table (with a row, so that the chart is
  drawn), the primary series consists of the pairs (buffer\_size, throughput / 1e6) in
  the row order of the table; it is in ascending order of buffer\_size exactly when the
  rows of the table are.
\<close>

theorem sweep_series_table_order:
  assumes "df \<noteq> []"
  shows "\<exists>c. plot_buffer_sizes (Table df) = Inr (Generated (Sweep c))
           \<and> sweep_line c = map (\<lambda>r. (buffer_size r, throughput_ops_per_sec r / 1000000)) df
           \<and> (sorted (map fst (sweep_line c)) = sorted (map buffer_size df))"
proof -
  have "map throughput_ops_per_sec df \<noteq> []" using assms by simp
  then obtain i where i: "idxmax (map throughput_ops_per_sec df) = Inr i"
    using idxmax_first_max by blast
  have "zip (map buffer_size df) (map (\<lambda>r. throughput_ops_per_sec r / 1000000) df)
      = map (\<lambda>r. (buffer_size r, throughput_ops_per_sec r / 1000000)) df"
    by (simp add: zip_map_map zip_same_conv_map)
  then show ?thesis
    using sweep_generated [OF i] by (simp add: comp_def)
qed

theorem sweep_series_table_order_witness:
  "[\<lparr>buffer_size = 1, throughput_ops_per_sec = 1000000\<rparr>,
    \<lparr>buffer_size = 2, throughput_ops_per_sec = 4000000\<rparr>,
    \<lparr>buffer_size = 4, throughput_ops_per_sec = 9000000\<rparr>,
    \<lparr>buffer_size = 8, throughput_ops_per_sec = 2000000\<rparr>] \<noteq> []
   \<and> (\<exists>c. plot_buffer_sizes (Table
        [\<lparr>buffer_size = 1, throughput_ops_per_sec = 1000000\<rparr>,
         \<lparr>buffer_size = 2, throughput_ops_per_sec = 4000000\<rparr>,
         \<lparr>buffer_size = 4, throughput_ops_per_sec = 9000000\<rparr>,
         \<lparr>buffer_size = 8, throughput_ops_per_sec = 2000000\<rparr>]) = Inr (Generated (Sweep c))
        \<and> sweep_line c = [(1, 1), (2, 4), (4, 9), (8, 2)]
        \<and> sorted (map fst (sweep_line c)))"
proof -
  let ?df = "[\<lparr>buffer_size = 1, throughput_ops_per_sec = 1000000\<rparr>,
    \<lparr>buffer_size = 2, throughput_ops_per_sec = 4000000\<rparr>,
    \<lparr>buffer_size = 4, throughput_ops_per_sec = 9000000\<rparr>,
    \<lparr>buffer_size = 8, throughput_ops_per_sec = 2000000\<rparr>]"
  have ne: "?df \<noteq> []" by simp
  obtain c where c: "plot_buffer_sizes (Table ?df) = Inr (Generated (Sweep c))"
      "sweep_line c = map (\<lambda>r. (buffer_size r, throughput_ops_per_sec r / 1000000)) ?df"
      "sorted (map fst (sweep_line c)) = sorted (map buffer_size ?df)"
    using sweep_series_table_order [OF ne] by blast
  have "sweep_line c = [(1, 1), (2, 4), (4, 9), (8, 2)]" using c(2) by simp
  moreover have "sorted (map fst (sweep_line c))" using c(3) by simp
  ultimately show ?thesis using ne c(1) by blast
qed

subsection \<open>C4: the variance percentage\<close>

lemma series_mean_nonempty: "xs \<noteq> [] \<Longrightarrow> series_mean xs = Fin (sum_list xs / real (length xs))"
  by (cases xs) simp_all

lemma series_max_nonempty: "xs \<noteq> [] \<Longrightarrow> series_max xs = Fin (Max (set xs))"
  by (cases xs) (simp_all add: Max.set_eq_fold [symmetric])

lemma series_min_nonempty: "xs \<noteq> [] \<Longrightarrow> series_min xs = Fin (Min (set xs))"
  by (cases xs) (simp_all add: Min.set_eq_fold [symmetric])

lemma variance_value:
  fixes mx mn m :: real
  assumes "mn \<le> mx"
  shows "np_mul (np_div (np_sub (np_div (Fin mx) (Fin 1000000)) (np_div (Fin mn) (Fin 1000000)))
                        (np_div (Fin m) (Fin 1000000))) (Fin 100)
       = (if m \<noteq> 0 then Fin ((mx - mn) / m * 100)
          else if mx = mn then NaN else PosInf)"
proof (cases "m = 0")
  case True
  then show ?thesis using assms by (auto simp: field_simps)
next
  case False
  have "(mx / 1000000 - mn / 1000000) / (m / 1000000) = (mx - mn) / m"
    using False by (simp add: field_simps)
  then show ?thesis using False by simp
qed

text \<open>
  Claim C4, as the specification words it: the variance percentage is
  (max - min) / mean * 100 over the filtered series, and the computation fails with
  DivisionByZero if and only if the mean is zero.

  The three statistics are numpy floats, and numpy's division does not raise: on a zero
  mean it returns NaN or an infinity. A filtered series of one row with throughput 0
  has mean 0; the chart is generated, with NaN as its variance.
\<close>

theorem zero_mean_no_failure_counterexample:
  "series_mean (map sustained_throughput_ops_per_sec
       (filter (\<lambda>r. test_name r = target_test_name)
          [\<lparr>test_name = ''10-second sustained load'', elapsed_time_sec = 0,
            sustained_throughput_ops_per_sec = 0\<rparr>])) = Fin 0
   \<and> plot_sustained_timeseries (Table
          [\<lparr>test_name = ''10-second sustained load'', elapsed_time_sec = 0,
            sustained_throughput_ops_per_sec = 0\<rparr>])
      = Inr (Generated (Sustained
          \<lparr>raw_line = [(0, 0)], rolling_line = [(0, Fin 0)], rolling_label_samples = 1,
           stats_avg = Fin 0, stats_variance = NaN\<rparr>))"
  by (simp add: plot_sustained_timeseries_def target_test_name_def window_size_of_def
      rolling_mean_def roll_mean_def roll_step_def Let_def)

text \<open>
  Claim C4, amended. For every non-empty filtered sustained-load series, the variance
  percentage equals (max - min) / mean * 100 over the full series scoped to the target
  test name when the mean is not zero; when the mean is zero the computation does not
  fail: the statistic is NaN (max = min) or +infinity (max > min), and the chart is
  generated all the same.
\<close>

theorem variance_percentage:
  fixes df :: "sustained_row list"
  defines "thr \<equiv> map sustained_throughput_ops_per_sec
                     (filter (\<lambda>r. test_name r = target_test_name) df)"
  defines "mean \<equiv> sum_list thr / real (length thr)"
  assumes "thr \<noteq> []"
  shows "\<exists>c. plot_sustained_timeseries (Table df) = Inr (Generated (Sustained c))
           \<and> stats_variance c =
               (if mean \<noteq> 0 then Fin ((Max (set thr) - Min (set thr)) / mean * 100)
                else if Max (set thr) = Min (set thr) then NaN else PosInf)"
proof -
  let ?df_10s = "filter (\<lambda>r. test_name r = target_test_name) df"
  have ne: "?df_10s \<noteq> []" using assms(3) by (auto simp: thr_def)
  have le: "Min (set thr) \<le> Max (set thr)"
    using assms(3) by simp
  have "np_mul (np_div (np_sub (np_div (series_max thr) (Fin 1000000))
                               (np_div (series_min thr) (Fin 1000000)))
                       (np_div (series_mean thr) (Fin 1000000))) (Fin 100)
        = (if mean \<noteq> 0 then Fin ((Max (set thr) - Min (set thr)) / mean * 100)
                else if Max (set thr) = Min (set thr) then NaN else PosInf)"
    unfolding series_mean_nonempty [OF assms(3)] series_max_nonempty [OF assms(3)]
      series_min_nonempty [OF assms(3)] mean_def
    by (rule variance_value [OF le])
  then show ?thesis
    unfolding sustained_generated [OF refl ne] thr_def by simp
qed

theorem variance_percentage_witness:
  "map sustained_throughput_ops_per_sec (filter (\<lambda>r. test_name r = target_test_name)
      [\<lparr>test_name = ''10-second sustained load'', elapsed_time_sec = 0,
         sustained_throughput_ops_per_sec = 2000000\<rparr>,
       \<lparr>test_name = ''warmup'', elapsed_time_sec = 1,
         sustained_throughput_ops_per_sec = 9000000\<rparr>,
       \<lparr>test_name = ''10-second sustained load'', elapsed_time_sec = 2,
         sustained_throughput_ops_per_sec = 4000000\<rparr>]) \<noteq> []
   \<and> (\<exists>c. plot_sustained_timeseries (Table
      [\<lparr>test_name = ''10-second sustained load'', elapsed_time_sec = 0,
         sustained_throughput_ops_per_sec = 2000000\<rparr>,
       \<lparr>test_name = ''warmup'', elapsed_time_sec = 1,
         sustained_throughput_ops_per_sec = 9000000\<rparr>,
       \<lparr>test_name = ''10-second sustained load'', elapsed_time_sec = 2,
         sustained_throughput_ops_per_sec = 4000000\<rparr>]) = Inr (Generated (Sustained c))
        \<and> stats_variance c = Fin (200 / 3))"
proof -
  let ?df = "[\<lparr>test_name = ''10-second sustained load'', elapsed_time_sec = 0,
         sustained_throughput_ops_per_sec = 2000000\<rparr>,
       \<lparr>test_name = ''warmup'', elapsed_time_sec = 1,
         sustained_throughput_ops_per_sec = 9000000\<rparr>,
       \<lparr>test_name = ''10-second sustained load'', elapsed_time_sec = 2,
         sustained_throughput_ops_per_sec = 4000000\<rparr>]"
  have thr: "map sustained_throughput_ops_per_sec
      (filter (\<lambda>r. test_name r = target_test_name) ?df) = [2000000, 4000000]"
    by (simp add: target_test_name_def)
  have ne: "map sustained_throughput_ops_per_sec
      (filter (\<lambda>r. test_name r = target_test_name) ?df) \<noteq> []"
    unfolding thr by simp
  obtain c where c: "plot_sustained_timeseries (Table ?df) = Inr (Generated (Sustained c))"
     and v: "stats_variance c =
               (if sum_list [2000000, 4000000 :: real] / real (length [2000000, 4000000 :: real]) \<noteq> 0
                then Fin ((Max (set [2000000, 4000000 :: real]) - Min (set [2000000, 4000000]))
                      / (sum_list [2000000, 4000000] / real (length [2000000, 4000000 :: real])) * 100)
                else if Max (set [2000000, 4000000 :: real]) = Min (set [2000000, 4000000]) then NaN
                else PosInf)"
    using variance_percentage [OF ne] unfolding thr by blast
  have "stats_variance c = Fin (200 / 3)" unfolding v by simp
  then show ?thesis using ne c by blast
qed

subsection \<open>C5: the quantile is the interpolated order statistic\<close>

lemma quantile_in_range:
  assumes "xs \<noteq> []" "0 \<le> q" "q \<le> 1" "h = real (length xs - 1) * q"
  shows "quantile xs q = Inr (Fin (sort xs ! nat \<lfloor>h\<rfloor>
            + (sort xs ! min (nat \<lfloor>h\<rfloor> + 1) (length xs - 1) - sort xs ! nat \<lfloor>h\<rfloor>)
              * (h - real (nat \<lfloor>h\<rfloor>))))"
  using assms(1-3) unfolding assms(4) by (simp add: quantile_def Let_def)

lemma virtual_index_bounds:
  assumes "0 \<le> q" "q \<le> 1"
  shows "0 \<le> real n * q \<and> real n * q \<le> real n"
  using assms by (simp add: mult_left_le)

lemma lerp_between_brackets:
  fixes s :: "real list" and h :: real
  assumes "0 \<le> h" "h \<le> real m"
  shows "s ! nat \<lfloor>h\<rfloor> + (s ! min (nat \<lfloor>h\<rfloor> + 1) m - s ! nat \<lfloor>h\<rfloor>) * (h - real (nat \<lfloor>h\<rfloor>))
       = (1 - (h - real (nat \<lfloor>h\<rfloor>))) * s ! nat \<lfloor>h\<rfloor> + (h - real (nat \<lfloor>h\<rfloor>)) * s ! nat \<lceil>h\<rceil>"
proof -
  let ?lo = "nat \<lfloor>h\<rfloor>"
  have lo: "real ?lo = of_int \<lfloor>h\<rfloor>" using assms(1) by simp
  show ?thesis
  proof (cases "h = real ?lo")
    case True
    then show ?thesis by simp
  next
    case False
    then have frac: "of_int \<lfloor>h\<rfloor> < h" using lo
      by (metis of_int_floor_le order_le_less)
    then have ce: "\<lceil>h\<rceil> = \<lfloor>h\<rfloor> + 1"
      by (simp add: ceiling_eq)
    have "real ?lo < real m" using frac lo assms(2) by linarith
    then have "?lo < m" by (simp only: of_nat_less_iff)
    then have nx: "min (?lo + 1) m = ?lo + 1" by simp
    have hi: "nat \<lceil>h\<rceil> = ?lo + 1" using ce assms(1) by (simp add: nat_add_distrib)
    show ?thesis
      unfolding nx hi by (simp add: algebra_simps)
  qed
qed

lemma quantile_is_interpolation:
  assumes "xs \<noteq> []" "0 \<le> p" "p \<le> 1"
  shows "quantile xs p = Inr (Fin (interpolated_order_statistic xs p))"
proof -
  define h where "h = real (length xs - 1) * p"
  have h0: "0 \<le> h" and h1: "h \<le> real (length xs - 1)"
    unfolding h_def using virtual_index_bounds [OF assms(2,3), of "length xs - 1"] by blast+
  have "interpolated_order_statistic xs p =
      (1 - (h - real (nat \<lfloor>h\<rfloor>))) * sort xs ! nat \<lfloor>h\<rfloor> + (h - real (nat \<lfloor>h\<rfloor>)) * sort xs ! nat \<lceil>h\<rceil>"
    unfolding interpolated_order_statistic_def Let_def h_def ..
  then show ?thesis
    unfolding quantile_in_range [OF assms h_def]
    using lerp_between_brackets [OF h0 h1, of "sort xs"] by simp
qed

lemma quantile_half_is_median:
  assumes "xs \<noteq> []"
  shows "quantile xs 0.5 = Inr (Fin (median xs))"
proof -
  let ?n = "length xs"
  define h where "h = real (?n - 1) * 0.5"
  have q: "quantile xs 0.5 = Inr (Fin (sort xs ! nat \<lfloor>h\<rfloor>
            + (sort xs ! min (nat \<lfloor>h\<rfloor> + 1) (?n - 1) - sort xs ! nat \<lfloor>h\<rfloor>)
              * (h - real (nat \<lfloor>h\<rfloor>))))"
    by (rule quantile_in_range [OF assms _ _ h_def]) simp_all
  have npos: "0 < ?n" using assms by simp
  show ?thesis
  proof (cases "odd ?n")
    case True
    then obtain k where k: "?n = 2 * k + 1" by (auto elim: oddE)
    have h: "h = real k" by (simp add: h_def k)
    have fl: "nat \<lfloor>h\<rfloor> = k" unfolding h by simp
    have d: "?n div 2 = k" by (simp add: k)
    have "median xs = sort xs ! k"
      using True d by (simp add: median_def Let_def)
    then show ?thesis
      unfolding q fl by (simp add: h)
  next
    case False
    then obtain k where k: "?n = 2 * k" by (auto elim: evenE)
    then have kpos: "0 < k" using npos by simp
    then obtain m where m: "k = Suc m" by (cases k) auto
    have h: "h = real m + 1/2" by (simp add: h_def k m)
    have "\<lfloor>real m + 1/2\<rfloor> = int m" by (simp add: floor_unique)
    then have fl: "nat \<lfloor>h\<rfloor> = m" unfolding h by simp
    have d: "?n div 2 = Suc m" by (simp add: k m)
    have nx: "min (m + 1) (?n - 1) = Suc m" by (simp add: k m)
    have "median xs = (sort xs ! m + sort xs ! Suc m) / 2"
      using False d by (simp add: median_def Let_def)
    then show ?thesis
      unfolding q fl nx by (simp add: h field_simps)
  qed
qed

lemma latency_generated:
  assumes "xs \<noteq> []"
  shows "plot_latency_distribution plt_hist (Table xs) =
     (case plt_hist xs 50 of
        Some e \<Rightarrow> Inl e
      | None \<Rightarrow> Inr (Generated (Latency
          \<lparr>hist_values = xs, hist_bins = 50,
           vline_p50 = Fin (median xs),
           vline_p99 = Fin (interpolated_order_statistic xs 0.99),
           vline_p999 = Fin (interpolated_order_statistic xs 0.999)\<rparr>)))"
proof -
  have a: "quantile xs 0.99 = Inr (Fin (interpolated_order_statistic xs 0.99))"
    by (rule quantile_is_interpolation [OF assms]) simp_all
  have b: "quantile xs 0.999 = Inr (Fin (interpolated_order_statistic xs 0.999))"
    by (rule quantile_is_interpolation [OF assms]) simp_all
  have c: "quantile xs 0.50 = Inr (Fin (median xs))"
    using quantile_half_is_median [OF assms] by simp
  show ?thesis
    by (simp only: plot_latency_distribution_def csv.case a b c sum.case)
qed

text \<open>
  Claim C5. For every non-empty numeric sequence and every \<open>p\<close> in \<open>[0, 1]\<close>, the
  quantile equals the value obtained by linear interpolation between the two bracketing
  order statistics of the sorted sequence; in particular the quantile at 0.5 is the
  conventional median. The three reference lines of the latency chart are such
  quantiles, at 0.5, 0.99 and 0.999, whenever the histogram call before them has not
  raised; when it has, its exception leaves the function and no chart is generated.
\<close>

theorem quantile_linear_interpolation:
  assumes "xs \<noteq> []" "0 \<le> p" "p \<le> 1"
  shows "quantile xs p = Inr (Fin (interpolated_order_statistic xs p))
       \<and> quantile xs 0.5 = Inr (Fin (median xs))
       \<and> plot_latency_distribution plt_hist (Table xs) =
           (case plt_hist xs 50 of
              Some e \<Rightarrow> Inl e
            | None \<Rightarrow> Inr (Generated (Latency
                \<lparr>hist_values = xs, hist_bins = 50,
                 vline_p50 = Fin (median xs),
                 vline_p99 = Fin (interpolated_order_statistic xs 0.99),
                 vline_p999 = Fin (interpolated_order_statistic xs 0.999)\<rparr>)))"
  using quantile_is_interpolation [OF assms] quantile_half_is_median [OF assms(1)]
    latency_generated [OF assms(1)]
  by (intro conjI)

theorem quantile_linear_interpolation_witness:
  "[40, 10, 30, 20 :: real] \<noteq> [] \<and> (0 :: real) \<le> 0.99 \<and> (0.99 :: real) \<le> 1
   \<and> quantile [40, 10, 30, 20] 0.99 = Inr (Fin (interpolated_order_statistic [40, 10, 30, 20] 0.99))
   \<and> quantile [40, 10, 30, 20] 0.99 = Inr (Fin 39.7)
   \<and> quantile [40, 10, 30, 20] 0.5 = Inr (Fin (median [40, 10, 30, 20]))
   \<and> median [40, 10, 30, 20] = 25"
proof -
  have h: "[40, 10, 30, 20 :: real] \<noteq> []" "(0 :: real) \<le> 0.99" "(0.99 :: real) \<le> 1"
    by simp_all
  have v: "quantile [40, 10, 30, 20] 0.99 = Inr (Fin 39.7)"
    by (simp add: quantile_def)
  have m: "median [40, 10, 30, 20] = 25"
    by (simp add: median_def)
  have q: "quantile [40, 10, 30, 20] 0.99
             = Inr (Fin (interpolated_order_statistic [40, 10, 30, 20] 0.99))"
      "quantile [40, 10, 30, 20] 0.5 = Inr (Fin (median [40, 10, 30, 20]))"
    using quantile_linear_interpolation [OF h] by blast+
  show ?thesis
    using h v m q by (intro conjI)
qed

subsection \<open>C7: the locator takes the name that sorts last\<close>

lemma latest_of_empty: "latest_of [] = None"
  by (simp add: latest_of_def)

lemma latest_of_nonempty:
  assumes "dirs \<noteq> []"
  shows "latest_of dirs = Some (last (sort dirs))"
proof -
  have "sort dirs \<noteq> []" using assms by (metis length_sort length_0_conv)
  then show ?thesis by (cases "sort dirs") (simp_all add: latest_of_def)
qed

lemma sorted_le_last:
  fixes ys :: "'a :: linorder list"
  shows "sorted ys \<Longrightarrow> x \<in> set ys \<Longrightarrow> x \<le> last ys"
  by (induction ys) auto

lemma latest_of_is_greatest:
  assumes "dirs \<noteq> []"
  shows "\<exists>d. latest_of dirs = Some d \<and> d \<in> set dirs \<and> (\<forall>e\<in>set dirs. e \<le> d)"
proof -
  have ne: "sort dirs \<noteq> []" using assms by (metis length_sort length_0_conv)
  have mem: "last (sort dirs) \<in> set dirs"
    using last_in_set [OF ne] by simp
  have "\<forall>e\<in>set dirs. e \<le> last (sort dirs)"
    using sorted_le_last [of "sort dirs"] by simp
  then show ?thesis using mem latest_of_nonempty [OF assms] by simp
qed

lemma used_dir_main: "used_dir (main plt_hist entries) = latest_of (glob_results (map fst entries))"
  by (simp add: main_def Let_def split: option.splits sum.splits)

text \<open>
  Claim C7. Among the directory entries that match the result-set naming pattern, the
  run uses the single entry that sorts last in lexicographic order (among
  \<open>run_2024-01-01\<close>, \<open>run_2024-03-05\<close>, \<open>run_2024-02-10\<close> the selection is
  \<open>run_2024-03-05\<close>); when no entry matches, the run ends with exit status 1 before any
  chart is attempted.
\<close>

theorem locator_selects_last:
  "(glob_results (map fst entries) = [] \<longrightarrow>
       main plt_hist entries = NoResultsExit \<and> exit_code (main plt_hist entries) = 1 \<and> attempted (main plt_hist entries) = 0)
   \<and> (glob_results (map fst entries) \<noteq> [] \<longrightarrow>
       (\<exists>d. used_dir (main plt_hist entries) = Some d
          \<and> d \<in> set (glob_results (map fst entries))
          \<and> (\<forall>e\<in>set (glob_results (map fst entries)). e \<le> d)))
   \<and> latest_of [''run_2024-01-01'', ''run_2024-03-05'', ''run_2024-02-10'']
        = Some ''run_2024-03-05''"
proof (intro conjI impI)
  assume e: "glob_results (map fst entries) = []"
  then show "main plt_hist entries = NoResultsExit" by (simp add: main_def latest_of_empty)
  then show "exit_code (main plt_hist entries) = 1" "attempted (main plt_hist entries) = 0" by simp_all
next
  assume "glob_results (map fst entries) \<noteq> []"
  then show "\<exists>d. used_dir (main plt_hist entries) = Some d
          \<and> d \<in> set (glob_results (map fst entries))
          \<and> (\<forall>e\<in>set (glob_results (map fst entries)). e \<le> d)"
    unfolding used_dir_main by (rule latest_of_is_greatest)
next
  show "latest_of [''run_2024-01-01'', ''run_2024-03-05'', ''run_2024-02-10'']
        = Some ''run_2024-03-05''"
    by (simp add: latest_of_def)
qed

theorem locator_selects_last_witness:
  "glob_results (map fst
      [(''benchmark_results_20240101_120000'',
          \<lparr>buffer_sizes_csv = NotFound, sustained_timeseries_csv = NotFound,
           latency_samples_csv = NotFound\<rparr>),
       (''notes.txt'',
          \<lparr>buffer_sizes_csv = NotFound, sustained_timeseries_csv = NotFound,
           latency_samples_csv = NotFound\<rparr>),
       (''benchmark_results_20240305_120000'',
          \<lparr>buffer_sizes_csv = NotFound, sustained_timeseries_csv = NotFound,
           latency_samples_csv = NotFound\<rparr>),
       (''benchmark_results_20240210_120000'',
          \<lparr>buffer_sizes_csv = NotFound, sustained_timeseries_csv = NotFound,
           latency_samples_csv = NotFound\<rparr>)]) \<noteq> []
   \<and> used_dir (main hist_accepts
      [(''benchmark_results_20240101_120000'',
          \<lparr>buffer_sizes_csv = NotFound, sustained_timeseries_csv = NotFound,
           latency_samples_csv = NotFound\<rparr>),
       (''notes.txt'',
          \<lparr>buffer_sizes_csv = NotFound, sustained_timeseries_csv = NotFound,
           latency_samples_csv = NotFound\<rparr>),
       (''benchmark_results_20240305_120000'',
          \<lparr>buffer_sizes_csv = NotFound, sustained_timeseries_csv = NotFound,
           latency_samples_csv = NotFound\<rparr>),
       (''benchmark_results_20240210_120000'',
          \<lparr>buffer_sizes_csv = NotFound, sustained_timeseries_csv = NotFound,
           latency_samples_csv = NotFound\<rparr>)]) = Some ''benchmark_results_20240305_120000''
   \<and> glob_results (map fst
      [(''notes.txt'',
          \<lparr>buffer_sizes_csv = NotFound, sustained_timeseries_csv = NotFound,
           latency_samples_csv = NotFound\<rparr>)]) = []
   \<and> main hist_accepts [(''notes.txt'',
          \<lparr>buffer_sizes_csv = NotFound, sustained_timeseries_csv = NotFound,
           latency_samples_csv = NotFound\<rparr>)] = NoResultsExit"
proof -
  let ?none = "\<lparr>buffer_sizes_csv = NotFound, sustained_timeseries_csv = NotFound,
           latency_samples_csv = NotFound\<rparr>"
  let ?E = "[(''benchmark_results_20240101_120000'', ?none), (''notes.txt'', ?none),
       (''benchmark_results_20240305_120000'', ?none),
       (''benchmark_results_20240210_120000'', ?none)]"
  have g: "glob_results (map fst ?E) =
      [''benchmark_results_20240101_120000'', ''benchmark_results_20240305_120000'',
       ''benchmark_results_20240210_120000'']"
    by (simp add: glob_results_def results_prefix_def)
  have ne: "glob_results (map fst ?E) \<noteq> []" unfolding g by simp
  obtain d where d: "used_dir (main hist_accepts ?E) = Some d" "d \<in> set (glob_results (map fst ?E))"
      "\<forall>e\<in>set (glob_results (map fst ?E)). e \<le> d"
    using locator_selects_last [where entries = ?E and plt_hist = hist_accepts] ne by blast
  have "d = ''benchmark_results_20240305_120000''"
    using d(2,3) unfolding g by auto
  then have a: "used_dir (main hist_accepts ?E) = Some ''benchmark_results_20240305_120000''"
    using d(1) by simp
  have e: "glob_results (map fst [(''notes.txt'', ?none)]) = []"
    by (simp add: glob_results_def results_prefix_def)
  have b: "main hist_accepts [(''notes.txt'', ?none)] = NoResultsExit"
    using locator_selects_last [where entries = "[(''notes.txt'', ?none)]"
        and plt_hist = hist_accepts] e
    by blast
  show ?thesis using ne a e b by blast
qed

subsection \<open>The run: three plotting calls in sequence\<close>

lemma main_cases:
  assumes "latest_of (glob_results (map fst entries)) = Some d"
  shows "main plt_hist entries =
     (case plot_buffer_sizes (buffer_sizes_csv (dir_contents entries d)) of
        Inl e \<Rightarrow> Uncaught d [] e
      | Inr o1 \<Rightarrow>
     (case plot_sustained_timeseries (sustained_timeseries_csv (dir_contents entries d)) of
        Inl e \<Rightarrow> Uncaught d [o1] e
      | Inr o2 \<Rightarrow>
     (case plot_latency_distribution plt_hist (latency_samples_csv (dir_contents entries d)) of
        Inl e \<Rightarrow> Uncaught d [o1, o2] e
      | Inr o3 \<Rightarrow> Complete d [o1, o2, o3])))"
  using assms by (simp add: main_def Let_def)

subsection \<open>C1: a failure inside a chart build\<close>

text \<open>
  Claim C1, as the specification words it: when the locator succeeds, a failure raised
  inside one chart build is caught by the runner and recorded for that chart; the
  remaining chart builds are still attempted and the process is not terminated.

  \<open>main\<close> calls the three plotting functions one after the other with no \<open>try\<close> around
  them, and no plotting function catches anything. A sweep table without rows makes
  \<open>idxmax\<close> raise \<open>ValueError\<close> in the first call: the process ends there with exit
  status 1, and the sustained and latency charts, whose files are in order, are never
  attempted.
\<close>

theorem empty_sweep_table_ends_run_counterexample:
  "main hist_accepts [(''benchmark_results_20240305_120000'',
          \<lparr>buffer_sizes_csv = Table [],
           sustained_timeseries_csv = Table
             [\<lparr>test_name = ''10-second sustained load'', elapsed_time_sec = 0,
               sustained_throughput_ops_per_sec = 5000000\<rparr>],
           latency_samples_csv = Table [10, 20, 30]\<rparr>)]
     = Uncaught ''benchmark_results_20240305_120000'' [] ValueError
   \<and> attempted (Uncaught ''benchmark_results_20240305_120000'' [] ValueError) = 1
   \<and> exit_code (Uncaught ''benchmark_results_20240305_120000'' [] ValueError) = 1"
  by (simp add: main_def glob_results_def results_prefix_def latest_of_def dir_contents_def
      plot_buffer_sizes_def)

text \<open>
  Claim C1, amended. For every run in which the result-set locator succeeds, a failure
  raised inside a chart build (an unusable file in any build, a sweep table without
  rows, a histogram call that raises) is not caught: it ends the process with exit
  status 1, the chart builds after it are not attempted, and the outcomes of the builds
  before it stand. Only a missing file (in each of the three builds) and a table without
  a row of the target test (in the sustained build) are handled inside a build, as
  skips.
\<close>

theorem chart_failure_ends_run:
  "(latest_of (glob_results (map fst entries)) = Some d \<longrightarrow>
      (\<forall>e. plot_buffer_sizes (buffer_sizes_csv (dir_contents entries d)) = Inl e \<longrightarrow>
            main plt_hist entries = Uncaught d [] e)
    \<and> (\<forall>e o1. plot_buffer_sizes (buffer_sizes_csv (dir_contents entries d)) = Inr o1
            \<and> plot_sustained_timeseries (sustained_timeseries_csv (dir_contents entries d))
                = Inl e \<longrightarrow>
            main plt_hist entries = Uncaught d [o1] e)
    \<and> (\<forall>e o1 o2. plot_buffer_sizes (buffer_sizes_csv (dir_contents entries d)) = Inr o1
            \<and> plot_sustained_timeseries (sustained_timeseries_csv (dir_contents entries d))
                = Inr o2
            \<and> plot_latency_distribution plt_hist (latency_samples_csv (dir_contents entries d))
                = Inl e \<longrightarrow>
            main plt_hist entries = Uncaught d [o1, o2] e)
    \<and> (\<forall>outs e. main plt_hist entries = Uncaught d outs e \<longrightarrow>
            exit_code (main plt_hist entries) = 1
            \<and> attempted (main plt_hist entries) = Suc (length outs)
            \<and> length outs < 3))
   \<and> (\<forall>e. plot_buffer_sizes (Unusable e) = Inl e
          \<and> plot_sustained_timeseries (Unusable e) = Inl e
          \<and> plot_latency_distribution plt_hist (Unusable e) = Inl e)
   \<and> plot_buffer_sizes (Table []) = Inl ValueError
   \<and> (\<forall>xs e. plt_hist xs 50 = Some e \<longrightarrow>
          plot_latency_distribution plt_hist (Table xs) = Inl e)
   \<and> (\<forall>c. (plot_buffer_sizes c = Inr SkippedNotFound) = (c = NotFound))
   \<and> (\<forall>c. plot_buffer_sizes c \<noteq> Inr SkippedNoTenSecondData)
   \<and> (\<forall>c. (plot_sustained_timeseries c = Inr SkippedNotFound) = (c = NotFound))
   \<and> (\<forall>c. (plot_sustained_timeseries c = Inr SkippedNoTenSecondData)
          = (\<exists>df. c = Table df \<and> filter (\<lambda>r. test_name r = target_test_name) df = []))
   \<and> (\<forall>c. (plot_latency_distribution plt_hist c = Inr SkippedNotFound) = (c = NotFound))
   \<and> (\<forall>c. plot_latency_distribution plt_hist c \<noteq> Inr SkippedNoTenSecondData)"
proof (intro conjI impI allI)
  fix outs e
  assume l: "latest_of (glob_results (map fst entries)) = Some d"
     and u: "main plt_hist entries = Uncaught d outs e"
  show "exit_code (main plt_hist entries) = 1"
    "attempted (main plt_hist entries) = Suc (length outs)"
    using u by simp_all
  show "length outs < 3"
    using u unfolding main_cases [OF l] by (auto split: sum.splits)
next
  fix c :: "sweep_row csv"
  show "(plot_buffer_sizes c = Inr SkippedNotFound) = (c = NotFound)"
    by (cases c) (auto simp: plot_buffer_sizes_def Let_def split: sum.splits)
  show "plot_buffer_sizes c \<noteq> Inr SkippedNoTenSecondData"
    by (cases c) (auto simp: plot_buffer_sizes_def Let_def split: sum.splits)
next
  fix c :: "sustained_row csv"
  show "(plot_sustained_timeseries c = Inr SkippedNotFound) = (c = NotFound)"
    by (cases c) (auto simp: plot_sustained_timeseries_def Let_def)
  show "(plot_sustained_timeseries c = Inr SkippedNoTenSecondData)
          = (\<exists>df. c = Table df \<and> filter (\<lambda>r. test_name r = target_test_name) df = [])"
    by (cases c) (auto simp: plot_sustained_timeseries_def Let_def)
next
  fix c :: "real csv"
  show "(plot_latency_distribution plt_hist c = Inr SkippedNotFound) = (c = NotFound)"
    by (cases c) (auto simp: plot_latency_distribution_def split: sum.splits option.splits)
  show "plot_latency_distribution plt_hist c \<noteq> Inr SkippedNoTenSecondData"
    by (cases c) (auto simp: plot_latency_distribution_def split: sum.splits option.splits)
next
  fix xs e
  assume "plt_hist xs 50 = Some e"
  then show "plot_latency_distribution plt_hist (Table xs) = Inl e"
    by (simp add: plot_latency_distribution_def)
next
  show "plot_buffer_sizes (Table []) = Inl ValueError"
    by (simp add: plot_buffer_sizes_def)
next
  fix e
  show "plot_buffer_sizes (Unusable e) = Inl e"
    by (simp add: plot_buffer_sizes_def)
  show "plot_sustained_timeseries (Unusable e) = Inl e"
    by (simp add: plot_sustained_timeseries_def)
  show "plot_latency_distribution plt_hist (Unusable e) = Inl e"
    by (simp add: plot_latency_distribution_def)
next
  fix e
  assume l: "latest_of (glob_results (map fst entries)) = Some d"
     and "plot_buffer_sizes (buffer_sizes_csv (dir_contents entries d)) = Inl e"
  then show "main plt_hist entries = Uncaught d [] e"
    by (simp add: main_cases [OF l])
next
  fix e o1
  assume l: "latest_of (glob_results (map fst entries)) = Some d"
     and "plot_buffer_sizes (buffer_sizes_csv (dir_contents entries d)) = Inr o1
            \<and> plot_sustained_timeseries (sustained_timeseries_csv (dir_contents entries d))
                = Inl e"
  then show "main plt_hist entries = Uncaught d [o1] e"
    by (simp add: main_cases [OF l])
next
  fix e o1 o2
  assume l: "latest_of (glob_results (map fst entries)) = Some d"
     and "plot_buffer_sizes (buffer_sizes_csv (dir_contents entries d)) = Inr o1
            \<and> plot_sustained_timeseries (sustained_timeseries_csv (dir_contents entries d))
                = Inr o2
            \<and> plot_latency_distribution plt_hist (latency_samples_csv (dir_contents entries d))
                = Inl e"
  then show "main plt_hist entries = Uncaught d [o1, o2] e"
    by (simp add: main_cases [OF l])
qed

theorem chart_failure_ends_run_witness:
  "latest_of (glob_results (map fst
      [(''benchmark_results_20240305_120000'',
          \<lparr>buffer_sizes_csv = NotFound,
           sustained_timeseries_csv = Unusable EmptyDataError,
           latency_samples_csv = Table [10, 20, 30]\<rparr>)]))
     = Some ''benchmark_results_20240305_120000''
   \<and> main hist_accepts [(''benchmark_results_20240305_120000'',
          \<lparr>buffer_sizes_csv = NotFound,
           sustained_timeseries_csv = Unusable EmptyDataError,
           latency_samples_csv = Table [10, 20, 30]\<rparr>)]
     = Uncaught ''benchmark_results_20240305_120000'' [SkippedNotFound] EmptyDataError
   \<and> exit_code (main hist_accepts [(''benchmark_results_20240305_120000'',
          \<lparr>buffer_sizes_csv = NotFound,
           sustained_timeseries_csv = Unusable EmptyDataError,
           latency_samples_csv = Table [10, 20, 30]\<rparr>)]) = 1
   \<and> attempted (main hist_accepts [(''benchmark_results_20240305_120000'',
          \<lparr>buffer_sizes_csv = NotFound,
           sustained_timeseries_csv = Unusable EmptyDataError,
           latency_samples_csv = Table [10, 20, 30]\<rparr>)]) = 2"
proof -
  let ?d = "''benchmark_results_20240305_120000''"
  let ?E = "[(?d, \<lparr>buffer_sizes_csv = NotFound,
           sustained_timeseries_csv = Unusable EmptyDataError,
           latency_samples_csv = Table [10, 20, 30]\<rparr>)]"
  note run = chart_failure_ends_run [where entries = ?E and d = ?d and plt_hist = hist_accepts]
  have l: "latest_of (glob_results (map fst ?E)) = Some ?d"
    by (simp add: glob_results_def results_prefix_def latest_of_def)
  have f: "buffer_sizes_csv (dir_contents ?E ?d) = NotFound"
      "sustained_timeseries_csv (dir_contents ?E ?d) = Unusable EmptyDataError"
    by (simp_all add: dir_contents_def)
  have b: "plot_buffer_sizes (buffer_sizes_csv (dir_contents ?E ?d)) = Inr SkippedNotFound"
    unfolding f by (simp add: plot_buffer_sizes_def)
  have t: "plot_sustained_timeseries (sustained_timeseries_csv (dir_contents ?E ?d))
             = Inl EmptyDataError"
    unfolding f by (simp add: plot_sustained_timeseries_def)
  note located = run [THEN conjunct1, THEN mp, OF l]
  have m: "main hist_accepts ?E = Uncaught ?d [SkippedNotFound] EmptyDataError"
    by (rule located [THEN conjunct2, THEN conjunct1, THEN spec, THEN spec, THEN mp,
          OF conjI [OF b t]])
  have x: "exit_code (main hist_accepts ?E) = 1
      \<and> attempted (main hist_accepts ?E) = Suc (length [SkippedNotFound])
      \<and> length [SkippedNotFound] < 3"
    by (rule located [THEN conjunct2, THEN conjunct2, THEN conjunct2, THEN spec, THEN spec,
          THEN mp, OF m])
  show ?thesis using l m x by simp
qed

subsection \<open>C8: a missing input file\<close>

text \<open>
  Claim C8, as the specification words it: for every chart kind, if the chart's input
  file does not exist the build is skipped with a warning, the remaining charts are
  still attempted, and the run completes with exit status 0 provided the locator
  succeeded.

  The skip itself is as claimed, but the exit status is not a consequence of the
  locator alone: with the sustained and latency files missing and a sweep table without
  rows, the first call raises, the two skips are never reached and the exit status is
  1.
\<close>

theorem missing_files_exit_code_counterexample:
  "main hist_accepts [(''benchmark_results_20240305_120000'',
          \<lparr>buffer_sizes_csv = Table [], sustained_timeseries_csv = NotFound,
           latency_samples_csv = NotFound\<rparr>)]
     = Uncaught ''benchmark_results_20240305_120000'' [] ValueError
   \<and> exit_code (main hist_accepts [(''benchmark_results_20240305_120000'',
          \<lparr>buffer_sizes_csv = Table [], sustained_timeseries_csv = NotFound,
           latency_samples_csv = NotFound\<rparr>)]) = 1
   \<and> attempted (main hist_accepts [(''benchmark_results_20240305_120000'',
          \<lparr>buffer_sizes_csv = Table [], sustained_timeseries_csv = NotFound,
           latency_samples_csv = NotFound\<rparr>)]) = 1"
  by (simp add: main_def glob_results_def results_prefix_def latest_of_def dir_contents_def
      plot_buffer_sizes_def)

text \<open>
  Claim C8, amended. For every chart kind, if that chart's input file does not exist,
  the chart build is skipped with a warning (an absent table, not an error); provided
  the locator succeeded and no chart build raises, all three charts are attempted and
  the run completes with exit status 0.
\<close>

theorem missing_file_is_skipped:
  "plot_buffer_sizes NotFound = Inr SkippedNotFound
   \<and> plot_sustained_timeseries NotFound = Inr SkippedNotFound
   \<and> plot_latency_distribution plt_hist NotFound = Inr SkippedNotFound
   \<and> (latest_of (glob_results (map fst entries)) = Some d
        \<and> \<not> isl (plot_buffer_sizes (buffer_sizes_csv (dir_contents entries d)))
        \<and> \<not> isl (plot_sustained_timeseries (sustained_timeseries_csv (dir_contents entries d)))
        \<and> \<not> isl (plot_latency_distribution plt_hist (latency_samples_csv (dir_contents entries d)))
      \<longrightarrow> (\<exists>o1 o2 o3. main plt_hist entries = Complete d [o1, o2, o3]
             \<and> exit_code (main plt_hist entries) = 0 \<and> attempted (main plt_hist entries) = 3
             \<and> (buffer_sizes_csv (dir_contents entries d) = NotFound \<longrightarrow> o1 = SkippedNotFound)
             \<and> (sustained_timeseries_csv (dir_contents entries d) = NotFound
                  \<longrightarrow> o2 = SkippedNotFound)
             \<and> (latency_samples_csv (dir_contents entries d) = NotFound
                  \<longrightarrow> o3 = SkippedNotFound)))"
proof (intro conjI impI)
  show "plot_buffer_sizes NotFound = Inr SkippedNotFound"
    by (simp add: plot_buffer_sizes_def)
  show "plot_sustained_timeseries NotFound = Inr SkippedNotFound"
    by (simp add: plot_sustained_timeseries_def)
  show "plot_latency_distribution plt_hist NotFound = Inr SkippedNotFound"
    by (simp add: plot_latency_distribution_def)
next
  assume h: "latest_of (glob_results (map fst entries)) = Some d
        \<and> \<not> isl (plot_buffer_sizes (buffer_sizes_csv (dir_contents entries d)))
        \<and> \<not> isl (plot_sustained_timeseries (sustained_timeseries_csv (dir_contents entries d)))
        \<and> \<not> isl (plot_latency_distribution plt_hist (latency_samples_csv (dir_contents entries d)))"
  obtain o1 where o1: "plot_buffer_sizes (buffer_sizes_csv (dir_contents entries d)) = Inr o1"
    using h by (cases "plot_buffer_sizes (buffer_sizes_csv (dir_contents entries d))") auto
  obtain o2 where o2:
    "plot_sustained_timeseries (sustained_timeseries_csv (dir_contents entries d)) = Inr o2"
    using h
    by (cases "plot_sustained_timeseries (sustained_timeseries_csv (dir_contents entries d))") auto
  obtain o3 where o3:
    "plot_latency_distribution plt_hist (latency_samples_csv (dir_contents entries d)) = Inr o3"
    using h
    by (cases "plot_latency_distribution plt_hist (latency_samples_csv (dir_contents entries d))") auto
  have l: "latest_of (glob_results (map fst entries)) = Some d" using h by simp
  have m: "main plt_hist entries = Complete d [o1, o2, o3]"
    unfolding main_cases [OF l] by (simp add: o1 o2 o3)
  have s1: "buffer_sizes_csv (dir_contents entries d) = NotFound \<longrightarrow> o1 = SkippedNotFound"
    using o1 by (auto simp: plot_buffer_sizes_def)
  have s2: "sustained_timeseries_csv (dir_contents entries d) = NotFound \<longrightarrow> o2 = SkippedNotFound"
    using o2 by (auto simp: plot_sustained_timeseries_def)
  have s3: "latency_samples_csv (dir_contents entries d) = NotFound \<longrightarrow> o3 = SkippedNotFound"
    using o3 by (auto simp: plot_latency_distribution_def)
  show "\<exists>o1 o2 o3. main plt_hist entries = Complete d [o1, o2, o3]
             \<and> exit_code (main plt_hist entries) = 0 \<and> attempted (main plt_hist entries) = 3
             \<and> (buffer_sizes_csv (dir_contents entries d) = NotFound \<longrightarrow> o1 = SkippedNotFound)
             \<and> (sustained_timeseries_csv (dir_contents entries d) = NotFound
                  \<longrightarrow> o2 = SkippedNotFound)
             \<and> (latency_samples_csv (dir_contents entries d) = NotFound
                  \<longrightarrow> o3 = SkippedNotFound)"
    using m s1 s2 s3 by simp
qed

theorem missing_file_is_skipped_witness:
  "latest_of (glob_results (map fst
      [(''benchmark_results_20240305_120000'',
          \<lparr>buffer_sizes_csv = NotFound, sustained_timeseries_csv = NotFound,
           latency_samples_csv = NotFound\<rparr>)]))
     = Some ''benchmark_results_20240305_120000''
   \<and> \<not> isl (plot_buffer_sizes (buffer_sizes_csv (dir_contents
      [(''benchmark_results_20240305_120000'',
          \<lparr>buffer_sizes_csv = NotFound, sustained_timeseries_csv = NotFound,
           latency_samples_csv = NotFound\<rparr>)] ''benchmark_results_20240305_120000'')))
   \<and> \<not> isl (plot_sustained_timeseries (sustained_timeseries_csv (dir_contents
      [(''benchmark_results_20240305_120000'',
          \<lparr>buffer_sizes_csv = NotFound, sustained_timeseries_csv = NotFound,
           latency_samples_csv = NotFound\<rparr>)] ''benchmark_results_20240305_120000'')))
   \<and> \<not> isl (plot_latency_distribution hist_accepts (latency_samples_csv (dir_contents
      [(''benchmark_results_20240305_120000'',
          \<lparr>buffer_sizes_csv = NotFound, sustained_timeseries_csv = NotFound,
           latency_samples_csv = NotFound\<rparr>)] ''benchmark_results_20240305_120000'')))
   \<and> main hist_accepts [(''benchmark_results_20240305_120000'',
          \<lparr>buffer_sizes_csv = NotFound, sustained_timeseries_csv = NotFound,
           latency_samples_csv = NotFound\<rparr>)]
     = Complete ''benchmark_results_20240305_120000''
         [SkippedNotFound, SkippedNotFound, SkippedNotFound]
   \<and> exit_code (main hist_accepts [(''benchmark_results_20240305_120000'',
          \<lparr>buffer_sizes_csv = NotFound, sustained_timeseries_csv = NotFound,
           latency_samples_csv = NotFound\<rparr>)]) = 0"
proof -
  let ?d = "''benchmark_results_20240305_120000''"
  let ?E = "[(?d, \<lparr>buffer_sizes_csv = NotFound, sustained_timeseries_csv = NotFound,
           latency_samples_csv = NotFound\<rparr>)]"
  have l: "latest_of (glob_results (map fst ?E)) = Some ?d"
    by (simp add: glob_results_def results_prefix_def latest_of_def)
  have f: "buffer_sizes_csv (dir_contents ?E ?d) = NotFound"
      "sustained_timeseries_csv (dir_contents ?E ?d) = NotFound"
      "latency_samples_csv (dir_contents ?E ?d) = NotFound"
    by (simp_all add: dir_contents_def)
  have b: "\<not> isl (plot_buffer_sizes (buffer_sizes_csv (dir_contents ?E ?d)))"
    unfolding f by (simp add: plot_buffer_sizes_def)
  have t: "\<not> isl (plot_sustained_timeseries (sustained_timeseries_csv (dir_contents ?E ?d)))"
    unfolding f by (simp add: plot_sustained_timeseries_def)
  have y: "\<not> isl (plot_latency_distribution hist_accepts (latency_samples_csv (dir_contents ?E ?d)))"
    unfolding f by (simp add: plot_latency_distribution_def)
  obtain o1 o2 o3 where m: "main hist_accepts ?E = Complete ?d [o1, o2, o3]"
      and x: "exit_code (main hist_accepts ?E) = 0"
      and s: "o1 = SkippedNotFound" "o2 = SkippedNotFound" "o3 = SkippedNotFound"
    using missing_file_is_skipped [where entries = ?E and d = ?d and plt_hist = hist_accepts]
      l b t y f
    by blast
  show ?thesis using l b t y m x s by (intro conjI) simp_all
qed

subsection \<open>C9: the rolling mean keeps the length\<close>

text \<open>
  Claim C9. For every input sequence and every window size of at least 1, the output of
  the rolling average has exactly as many elements as the input.
\<close>

theorem rolling_mean_keeps_length:
  "1 \<le> window \<Longrightarrow> length (rolling_mean window xs) = length xs"
  by (simp add: rolling_mean_def roll_mean_eq)

theorem rolling_mean_keeps_length_witness:
  "(1::nat) \<le> 3 \<and> length (rolling_mean 3 [4, 8, 6, 2, 10]) = length [4, 8, 6, 2, 10 :: real]"
  using rolling_mean_keeps_length [of 3 "[4, 8, 6, 2, 10]"] by simp

end
